theory Spec2Isabelle
  imports Main
begin

section \<open>Python values, exceptions and observable effects\<close>

text \<open>
  The handlers exchange Python dictionaries whose values are strings, \<open>None\<close>, or objects
  handed back by an external collaborator (the slot list, the booking confirmation). The
  handlers never look inside such an object: they only pass it on, store it, or interpolate
  it in an f-string, so it is represented by the text that \<open>str()\<close> gives it.
\<close>

datatype pyval = PStr string | PNone | PObj string

fun str :: "pyval \<Rightarrow> string" where
  "str (PStr s) = s"
| "str PNone = ''None''"
| "str (PObj r) = r"

text \<open>A field declared \<open>Optional[str]\<close>, read as a Python value.\<close>

fun of_optional :: "string option \<Rightarrow> pyval" where
  "of_optional None = PNone"
| "of_optional (Some s) = PStr s"

text \<open>\<open>datetime\<close> values are only passed through; the payload is their ISO text.\<close>

datatype datetime = Datetime string

datatype message = SystemMessage string | HumanMessage string | AIMessage string

datatype error =
    KeyError string
  | ValidationError
  | ValueError string
  | GraphRecursionError
  | Raised string

text \<open>
  \<open>Raised x\<close> is an exception that comes out of an external collaborator (the language
  model, the scheduling, booking and mail functions, the file system).
\<close>

datatype schema =
    Category_schema
  | PolicyResponse_schema
  | CommissionResponse_schema
  | ContestDecision_schema
  | TicketResponse_schema
  | TicketEmail_schema

text \<open>
  Everything a handler does besides returning is recorded, in order, as a list of events:
  diagnostic prints and the calls that leave the handler.
\<close>

datatype event =
    Print string
  | StructuredInvoke schema "message list"
  | ModelInvoke string
  | Create_llm_message string
  | Handle_appointment_request
  | Book_appointment "datetime option" "string option"
  | Send_email string "string option" string string
  | Open_read string

type_synonym 'a eff = "event list \<times> (error + 'a)"

definition returns :: "'a \<Rightarrow> 'a eff" where
  "returns x = ([], Inr x)"

definition raises :: "error \<Rightarrow> 'a eff" where
  "raises e = ([], Inl e)"

definition call :: "event \<Rightarrow> error + 'a \<Rightarrow> 'a eff" where
  "call ev r = ([ev], r)"

definition print :: "string \<Rightarrow> unit eff" where
  "print s = ([Print s], Inr ())"

text \<open>Sequencing: an exception stops the rest, the events so far stay.\<close>

definition and_then :: "'a eff \<Rightarrow> ('a \<Rightarrow> 'b eff) \<Rightarrow> 'b eff" where
  "and_then m f =
     (case m of
        (t, Inl e) \<Rightarrow> (t, Inl e)
      | (t, Inr x) \<Rightarrow> (case f x of (t', r) \<Rightarrow> (t @ t', r)))"

section \<open>Conversation state and structured outputs (graph.py, contest_agent.py, ticket_agent.py)\<close>

text \<open>
  \<open>AgentState\<close> is a dictionary; a handler returns the dictionary of the keys it writes, or
  \<open>None\<close> when its body ends without a \<open>return\<close>.
\<close>

type_synonym AgentState = "string \<rightharpoonup> pyval"

type_synonym node_result = "AgentState option"

record Category =
  category :: string

record PolicyResponse =
  policy :: string
  response :: string

record CommissionResponse =
  commission :: string
  calculation :: string
  response :: string

record ContestDecision =
  nextsteps :: string
  decision :: string
  timeslot :: "datetime option"
  email :: "string option"
  name :: "string option"

record TicketResponse =
  response :: string
  createTicket :: bool

record TicketEmail =
  response :: string
  htmlEmail :: string

text \<open>
  The collaborators the source imports and calls: the chat model held in \<open>self.model\<close>
  (one structured-output call per schema, and the plain \<open>invoke\<close> whose reply's
  \<open>content\<close> is read), \<open>create_llm_message\<close>, \<open>handle_appointment_request\<close>,
  \<open>book_appointment\<close>, \<open>send_email\<close>, reading a text file, and
  \<open>markdown2.markdown\<close>. Their code is outside the source files; each one is a parameter
  that either raises or returns.
\<close>

record world =
  structured_Category :: "message list \<Rightarrow> error + Category"
  structured_PolicyResponse :: "message list \<Rightarrow> error + PolicyResponse"
  structured_CommissionResponse :: "message list \<Rightarrow> error + CommissionResponse"
  structured_ContestDecision :: "message list \<Rightarrow> error + ContestDecision"
  structured_TicketResponse :: "message list \<Rightarrow> error + TicketResponse"
  structured_TicketEmail :: "message list \<Rightarrow> error + TicketEmail"
  invoke :: "string \<Rightarrow> error + string"
  create_llm_message :: "string \<Rightarrow> error + message list"
  handle_appointment_request :: "error + pyval"
  book_appointment :: "datetime option \<Rightarrow> string option \<Rightarrow> error + pyval"
  send_email :: "string \<Rightarrow> string option \<Rightarrow> string \<Rightarrow> string \<Rightarrow> error + unit"
  read_file :: "string \<Rightarrow> error + string"
  markdown :: "string \<Rightarrow> string"

text \<open>\<open>state[key]\<close> raises \<open>KeyError\<close> on a missing key.\<close>

definition getitem :: "AgentState \<Rightarrow> string \<Rightarrow> pyval eff" where
  "getitem state k = (case state k of None \<Rightarrow> raises (KeyError k) | Some v \<Rightarrow> returns v)"

text \<open>\<open>state.get(key, default)\<close>.\<close>

definition get_default :: "AgentState \<Rightarrow> string \<Rightarrow> pyval \<Rightarrow> pyval" where
  "get_default state k d = (case state k of None \<Rightarrow> d | Some v \<Rightarrow> v)"

text \<open>\<open>HumanMessage(content=v)\<close>: the message class validates that the content is text.\<close>

definition HumanMessage_of :: "pyval \<Rightarrow> message eff" where
  "HumanMessage_of v = (case v of PStr s \<Rightarrow> returns (HumanMessage s) | _ \<Rightarrow> raises ValidationError)"

text \<open>A triple-quoted literal, line by line.\<close>

fun join_lines :: "string list \<Rightarrow> string" where
  "join_lines [] = []"
| "join_lines [l] = l"
| "join_lines (l # ls) = l @ CHR 0x0A # join_lines ls"

section \<open>graph.py\<close>

definition VALID_CATEGORIES :: "string list" where
  "VALID_CATEGORIES = [''policy'', ''commission'', ''contest'', ''ticket'', ''clarify'']"

text \<open>
  Modelled from the spec: \<open>END\<close> is the graph library's terminate marker (the spec's
  \<open>Terminate\<close>), imported by graph.py; the library reserves the node name \<open>__end__\<close> for it.
\<close>

definition END :: string where
  "END = ''__end__''"

definition classifier_prompt :: "string" where
  \<open>classifier_prompt = join_lines
    ['''',
     ''        You are an expert at customer service in sales operations. Please classify the customer'',
     ''        requests as follows:'',
     ''        1) If the request is a question about sales policies, category is 'policy'' @ [CHR 0x27],
     ''        2) If the request is a question about user's commissions, category is 'commission'' @ [CHR 0x27],
     ''        3) If the request is a question about contests, category is 'contest'' @ [CHR 0x27],
     ''        4) If the request is a question about tickets, category is 'ticket'' @ [CHR 0x27],
     ''        5) Otherwise ask the user to clarify, category is 'clarify'' @ [CHR 0x27],
     ''        '']\<close>

definition POLICY_PROMPT :: "string" where
  \<open>POLICY_PROMPT = join_lines
    ['''',
     ''        You are a Sales Compensation Policy expert. You understand four policies related'',
     ''        sales compensation. Based on user's query, you would decide which policy to use. '',
     ''        The polices are:'',
     ''        1) Minimum commission guarantee'',
     ''        2) Air cover bonus'',
     ''        3) Windfall activation'',
     ''        4) Leave of absence'',
     '''',
     ''        Please provide user response as well as the policy used to decide.      '',
     ''        '']\<close>

definition COMMISSION_PROMPT :: "string" where
  \<open>COMMISSION_PROMPT = join_lines
    ['''',
     ''        You are a Sales Commissions expert. Users will ask you about what their commission'',
     ''        will be for a particular deal. You can assume their on-target incentive to be $100000'',
     ''        and their annual quota to be $2000000. Also note that Commission is equal to on-target'',
     ''        incentive divided by annual quota. '',
     ''        '',
     ''        Please provide user commission as well as explain how you computed it.      '',
     ''        '']\<close>

definition initial_classifier :: "world \<Rightarrow> AgentState \<Rightarrow> node_result eff" where
  "initial_classifier self state =
     and_then (print ''initial classifier'') (\<lambda>_.
     and_then (getitem state ''initialMessage'') (\<lambda>initialMessage.
     and_then (HumanMessage_of initialMessage) (\<lambda>human.
     and_then (call (StructuredInvoke Category_schema [SystemMessage classifier_prompt, human])
                (structured_Category self [SystemMessage classifier_prompt, human])) (\<lambda>llm_response.
     and_then (print (''category is '' @ category llm_response)) (\<lambda>_.
     returns (Some [''lnode'' \<mapsto> PStr ''initial_classifier'',
                    ''responseToUser'' \<mapsto> PStr ''Classifier successful'',
                    ''category'' \<mapsto> PStr (category llm_response)]))))))"

text \<open>\<open>my_category in VALID_CATEGORIES\<close>: only a string can equal a list element.\<close>

definition main_router :: "AgentState \<Rightarrow> pyval eff" where
  "main_router state =
     and_then (getitem state ''category'') (\<lambda>my_category.
       if (case my_category of PStr c \<Rightarrow> c \<in> set VALID_CATEGORIES | _ \<Rightarrow> False)
       then returns my_category
       else and_then (print (''unknown category: '' @ str my_category)) (\<lambda>_.
            returns (PStr END)))"

definition policy_agent :: "world \<Rightarrow> AgentState \<Rightarrow> node_result eff" where
  "policy_agent self state =
     and_then (print ''policy agent'') (\<lambda>_.
     and_then (getitem state ''initialMessage'') (\<lambda>initialMessage.
     and_then (HumanMessage_of initialMessage) (\<lambda>human.
     and_then (call (StructuredInvoke PolicyResponse_schema [SystemMessage POLICY_PROMPT, human])
                (structured_PolicyResponse self [SystemMessage POLICY_PROMPT, human])) (\<lambda>llm_response.
     let policy = PolicyResponse.policy llm_response;
         response = PolicyResponse.response llm_response in
     and_then (print (''Policy is: '' @ policy @ '', Response is: '' @ response)) (\<lambda>_.
     returns (Some [''lnode'' \<mapsto> PStr ''initial_classifier'',
                    ''responseToUser'' \<mapsto>
                       PStr (response @ '' '' @ [CHR 0x0A, CHR 0x0A] @ '' Source: '' @ policy),
                    ''category'' \<mapsto> PStr policy]))))))"

definition commission_agent :: "world \<Rightarrow> AgentState \<Rightarrow> node_result eff" where
  "commission_agent self state =
     and_then (print ''commission agent'') (\<lambda>_.
     and_then (getitem state ''initialMessage'') (\<lambda>initialMessage.
     and_then (HumanMessage_of initialMessage) (\<lambda>human.
     and_then (call (StructuredInvoke CommissionResponse_schema [SystemMessage COMMISSION_PROMPT, human])
                (structured_CommissionResponse self [SystemMessage COMMISSION_PROMPT, human])) (\<lambda>llm_response.
     let commission = CommissionResponse.commission llm_response;
         calculation = CommissionResponse.calculation llm_response;
         response = CommissionResponse.response llm_response in
     and_then (print (''Commission is '' @ commission @ '', Calculation is '' @ calculation
                      @ '', Response is '' @ response)) (\<lambda>_.
     returns (Some [''lnode'' \<mapsto> PStr ''initial_classifier'',
                    ''responseToUser'' \<mapsto>
                       PStr (response @ '' '' @ [CHR 0x0A, CHR 0x0A] @ '' Source: '' @ calculation
                             @ ''.'' @ [CHR 0x0A] @ '' Commission: '' @ commission),
                    ''category'' \<mapsto> PStr calculation]))))))"

text \<open>The three placeholders print and fall off the end of their body.\<close>

definition salesCompAgent_contest_agent :: "world \<Rightarrow> AgentState \<Rightarrow> node_result eff" where
  "salesCompAgent_contest_agent self state = and_then (print ''contest agent'') (\<lambda>_. returns None)"

definition salesCompAgent_ticket_agent :: "world \<Rightarrow> AgentState \<Rightarrow> node_result eff" where
  "salesCompAgent_ticket_agent self state = and_then (print ''ticket agent'') (\<lambda>_. returns None)"

definition clarify_agent :: "world \<Rightarrow> AgentState \<Rightarrow> node_result eff" where
  "clarify_agent self state = and_then (print ''clarify agent'') (\<lambda>_. returns None)"

section \<open>src/contest_agent.py\<close>

definition get_available_slots :: "world \<Rightarrow> pyval eff" where
  "get_available_slots self = call Handle_appointment_request (handle_appointment_request self)"

definition time_slot_prompt :: "string \<Rightarrow> string" where
  \<open>time_slot_prompt available_slots = join_lines
    ['''',
     ''         You are an appointment booking scheduler. Present the following slots in a brief, easy-to-read format. Keep '',
     ''         the message compact but always maintain a friendly, professional, and helpful tone throughout the interaction.'',
     '''',
     ''        Available slots: '' @ available_slots,
     '''',
     ''        Instructions:'',
     ''        1. Tell the user that they need to book a consultation with Sales Comp team and you will help them book an appointment '',
     ''        2. List the slots in a clean and easy to read format'',
     ''        3. Keep your message under 100 words'',
     ''        4. Simply ask "Please choose a time slot."'',
     ''        '']\<close>

definition contest_prompt :: "string" where
  \<open>contest_prompt = join_lines
    ['''',
     ''        You are a Sales Commissions expert. Users will ask you about starting a SPIF or sales contest. Maintain a '',
     ''        friendly, professional, and helpful tone.'',
     '''',
     ''        STEP 1: VALIDATE USER INFO'',
     ''        1. Ask the user to provide their full name and email address to proceed. Update 'decision' to [askforuserinfo] and 'nextsteps' to politely ask the user for name and email address '',
     ''        2. If you HAVE all the information (Full name and Email address), categorize user's query per categories in Step 2.'',
     ''        3. If you DON'T HAVE all the information (Full name and Email address), politely, ask the user for this information.'',
     '''',
     ''        STEP 2: UPDATE 'decision' to [BookAppointment]. '',
     '''',
     ''        STEP 3: If user has provided a preferred slot, UPDATE 'decision' to [ConfirmAppointment]'',
     '''',
     ''        STEP 4: If the appointment has been confirmed, UPDATE 'decision' to [AppointmentComplete], and explain the next steps using instructions in Step 5'',
     '''',
     ''        STEP 5: EXPLAIN THE NEXT STEPS AS DESCRIBED BELOW IN PLAIN ENGLISH'',
     ''        a. Tell them that the Sales Comp team representative is looking forward to meeting them'',
     ''        b. Inform them that the Intake Form has been sent via email. Ask them to complete the Intake Form before the meeting'',
     ''        c. After the meeting, Sales Comp team will send the proposal to the President of Sales and the CFO for approval'',
     ''        d. No verbal or written communication should be sent to the field without formal approval is complete'',
     ''        e. If approved, Sales Comp team will prepare launch documentation in collaboration with the Communications team'',
     '''',
     ''        STEP 6: END THE CONVERSATION, update the 'nextstep' by wishing the user goodluck and ask them if there is anything'',
     ''        else that they need help with.'',
     ''        '',
     ''        '',
     ''        '']\<close>

definition list_available_slots :: "world \<Rightarrow> pyval \<Rightarrow> string eff" where
  "list_available_slots self available_slots =
     call (ModelInvoke (time_slot_prompt (str available_slots)))
          (invoke self (time_slot_prompt (str available_slots)))"

definition confirm_appointment :: "world \<Rightarrow> datetime option \<Rightarrow> string option \<Rightarrow> pyval eff" where
  "confirm_appointment self selected_slot user_email =
     call (Book_appointment selected_slot user_email) (book_appointment self selected_slot user_email)"

definition get_contest_url :: "world \<Rightarrow> string eff" where
  "get_contest_url self = call (Open_read ''contesturl.txt'') (read_file self ''contesturl.txt'')"

definition generate_contest_response :: "world \<Rightarrow> ContestDecision eff" where
  "generate_contest_response self =
     and_then (call (Create_llm_message contest_prompt) (create_llm_message self contest_prompt))
       (\<lambda>llm_messages.
     call (StructuredInvoke ContestDecision_schema llm_messages)
          (structured_ContestDecision self llm_messages))"

definition ContestAgent_contest_agent :: "world \<Rightarrow> AgentState \<Rightarrow> node_result eff" where
  "ContestAgent_contest_agent self state =
     and_then (generate_contest_response self) (\<lambda>llm_response.
       if decision llm_response = ''BookAppointment'' then
         and_then (get_available_slots self) (\<lambda>available_slots.
         and_then (list_available_slots self available_slots) (\<lambda>user_response.
         returns (Some [''lnode'' \<mapsto> PStr ''contest_agent'',
                        ''responseToUser'' \<mapsto> PStr user_response,
                        ''category'' \<mapsto> PStr ''contest'',
                        ''name'' \<mapsto> of_optional (name llm_response),
                        ''email'' \<mapsto> of_optional (email llm_response)])))
       else
         and_then
           (if decision llm_response = ''ConfirmAppointment'' then
              and_then (confirm_appointment self (timeslot llm_response) (email llm_response))
                (\<lambda>user_response.
              let subject = ''Please complete the SPIF/Sales Contest Intake Form'' in
              and_then (get_contest_url self) (\<lambda>contest_url.
              let html_content = markdown self contest_url in
              and_then (call (Send_email ''malihajburney@gmail.com'' (email llm_response)
                                subject html_content)
                          (send_email self ''malihajburney@gmail.com'' (email llm_response)
                                subject html_content)) (\<lambda>_.
              returns user_response)))
            else if decision llm_response = ''AppointmentComplete'' then
              returns (PStr (nextsteps llm_response))
            else
              returns (PStr (nextsteps llm_response)))
           (\<lambda>user_response.
         returns (Some [''lnode'' \<mapsto> PStr ''contest_agent'',
                        ''responseToUser'' \<mapsto> user_response,
                        ''category'' \<mapsto> PStr ''contest''])))"

section \<open>src/ticket_agent.py\<close>

definition ticket_prompt :: "string \<Rightarrow> string" where
  \<open>ticket_prompt user_query = join_lines
    ['''',
     ''        You are a Sales Compensation Support Assistant. Your role is to collect necessary information and decide if a support '',
     ''        ticket needs to be created or not.'',
     '''',
     ''        USER QUERY: "'' @ user_query @ ''"'',
     '''',
     ''        REQUIRED INFORMATION:'',
     ''        - Full Name'',
     ''        - Email Address (must be valid email format)'',
     ''        - Issue Description'',
     '''',
     ''        INSTRUCTIONS:'',
     ''        1. Check conversation history to confirm if ticket has already been created:'',
     ''           - If a ticket has already been created for this issue, set createTicket=False and politely ask if they need anything else'',
     ''        '',
     ''        2. Parse user information:'',
     ''           - Extract Full Name (if provided)'',
     ''           - Extract and validate Email Address (if provided)'',
     ''           - Extract Issue Description from query'',
     ''        '',
     ''        3. Determine next action:'',
     ''           IF all required information is present:'',
     ''           - Set createTicket=True'',
     ''           - Format response: "Thank you [First Name], I've created a support ticket for the Sales Compensation team. They will contact you at [email]. Is there anything else I can help you with?"'',
     ''           '',
     ''           IF information is missing:'',
     ''           - Set createTicket=False'',
     ''           - Format response: "To help you better, I need your [missing information]. This will allow me to create a support ticket for our Sales Compensation team."'',
     '''',
     ''        OUTPUT REQUIREMENTS:'',
     ''        - response: Your message to the user'',
     ''        - createTicket: Boolean (True only if all required information is present and no ticket exists)'',
     '''',
     ''        Remember: Only create new tickets when you have ALL required information and no existing ticket.'',
     ''       '',
     ''        '']\<close>

definition ticket_email_prompt :: "string" where
  \<open>ticket_email_prompt = join_lines
    ['''',
     ''        You are creating a support ticket email for the Sales Compensation team. You have realized that you are not able to solve user's concern. '',
     ''        '',
     ''        Create a well-formatted HTML email as a well-formatted html that can be sent directly to the Sales Comp Support team.'',
     ''        1. User Details: '',
     ''           - User's Full name'',
     ''           - User's Email address'',
     ''        3. Issue description'',
     '''',
     ''        Format Requirements:'',
     ''        - Use proper HTML tags (<p>, <br>, etc.)'',
     ''        - Make important information visually stand out'',
     ''        - Use "Sales Comp Agent" as your signature at the end of email'',
     ''        - Keep it professional and concise'',
     '''',
     ''        Please provide the email content in the field "htmlEmail".'',
     '''',
     ''        '']\<close>

definition generate_ticket_response :: "world \<Rightarrow> AgentState \<Rightarrow> TicketResponse eff" where
  "generate_ticket_response self state =
     (let user_query = get_default state ''initialMessage'' (PStr '''') in
      and_then (call (Create_llm_message (ticket_prompt (str user_query)))
                  (create_llm_message self (ticket_prompt (str user_query)))) (\<lambda>llm_messages.
      call (StructuredInvoke TicketResponse_schema llm_messages)
           (structured_TicketResponse self llm_messages)))"

definition generate_ticket_email :: "world \<Rightarrow> AgentState \<Rightarrow> string eff" where
  "generate_ticket_email self state =
     and_then (call (Create_llm_message ticket_email_prompt)
                 (create_llm_message self ticket_email_prompt)) (\<lambda>llm_messages.
     and_then (call (StructuredInvoke TicketEmail_schema llm_messages)
                 (structured_TicketEmail self llm_messages)) (\<lambda>llm_response.
     returns (htmlEmail llm_response)))"

definition ticket_agent :: "world \<Rightarrow> AgentState \<Rightarrow> node_result eff" where
  "ticket_agent self state =
     and_then (generate_ticket_response self state) (\<lambda>full_response.
     and_then
       (if createTicket full_response then
          and_then (generate_ticket_email self state) (\<lambda>ticket_email_response.
          and_then (call (Send_email ''malihajburney@gmail.com'' (Some ''i_jahangir@hotmail.com'')
                            ''New Ticket from SalesCompAgent'' ticket_email_response)
                      (send_email self ''malihajburney@gmail.com'' (Some ''i_jahangir@hotmail.com'')
                            ''New Ticket from SalesCompAgent'' ticket_email_response)) (\<lambda>_.
          returns ()))
        else returns ()) (\<lambda>_.
     returns (Some [''lnode'' \<mapsto> PStr ''ticket_agent'',
                    ''responseToUser'' \<mapsto> PStr (TicketResponse.response full_response),
                    ''category'' \<mapsto> PStr ''ticket''])))"

section \<open>The graph built by \<open>salesCompAgent.__init__\<close>\<close>

text \<open>
  Modelled from the spec: the graph builder and the engine that runs the compiled graph
  belong to the graph library that graph.py imports, not to the repository. What follows is
  the part of them that \<open>__init__\<close> relies on: nodes registered under unique,
  unreserved names; edges and the classifier's conditional edge; at compile time the check
  that every edge starts and ends at a known node; at run time the spec's topology
  "classifier, then router, then exactly one handler, then terminate", a node's returned
  dictionary written over the state key by key, and a step limit. Checkpointing is left out.
  Only \<open>salesCompAgent_init\<close> below is a translation of repository code.
\<close>

type_synonym node = "AgentState \<Rightarrow> node_result eff"

type_synonym router = "AgentState \<Rightarrow> pyval eff"

record StateGraph =
  nodes :: "(string \<times> node) list"
  edges :: "(string \<times> string) list"
  branches :: "(string \<times> router) list"

definition START :: string where
  \<comment> \<open>Modelled from the spec: the library's reserved name of the entry point.\<close>
  "START = ''__start__''"

definition new_StateGraph :: StateGraph where
  \<comment> \<open>Modelled from the spec: \<open>StateGraph(AgentState)\<close>, an empty builder.\<close>
  "new_StateGraph = \<lparr>nodes = [], edges = [], branches = []\<rparr>"

definition add_node :: "string \<Rightarrow> node \<Rightarrow> StateGraph \<Rightarrow> StateGraph eff" where
  \<comment> \<open>Modelled from the spec: a node name is registered once and is not a reserved name.\<close>
  "add_node key action builder =
     (if key \<in> set (map fst (nodes builder)) then raises (ValueError key)
      else if key = END \<or> key = START then raises (ValueError key)
      else returns (builder\<lparr>nodes := nodes builder @ [(key, action)]\<rparr>))"

definition add_edge :: "string \<Rightarrow> string \<Rightarrow> StateGraph \<Rightarrow> StateGraph eff" where
  \<comment> \<open>Modelled from the spec: no edge leaves the end or enters the start.\<close>
  "add_edge start_key end_key builder =
     (if start_key = END then raises (ValueError start_key)
      else if end_key = START then raises (ValueError end_key)
      else returns (builder\<lparr>edges := edges builder @ [(start_key, end_key)]\<rparr>))"

definition set_entry_point :: "string \<Rightarrow> StateGraph \<Rightarrow> StateGraph eff" where
  \<comment> \<open>Modelled from the spec: the entry point is the edge from the start.\<close>
  "set_entry_point key builder = add_edge START key builder"

definition add_conditional_edges :: "string \<Rightarrow> router \<Rightarrow> StateGraph \<Rightarrow> StateGraph eff" where
  \<comment> \<open>Modelled from the spec: one routing function per source node.\<close>
  "add_conditional_edges source path builder =
     (if source \<in> set (map fst (branches builder)) then raises (ValueError source)
      else returns (builder\<lparr>branches := branches builder @ [(source, path)]\<rparr>))"

definition known_node :: "StateGraph \<Rightarrow> string \<Rightarrow> bool" where
  \<comment> \<open>Modelled from the spec: the name has been registered with \<open>add_node\<close>.\<close>
  "known_node builder key = (key \<in> set (map fst (nodes builder)))"

definition compile :: "StateGraph \<Rightarrow> StateGraph eff" where
  \<comment> \<open>Modelled from the spec: the structural validation made when the graph is compiled. It
      looks at names only, never at what a registered handler does.\<close>
  "compile builder =
     (if list_all (\<lambda>(s, e). (s = START \<or> known_node builder s) \<and> (e = END \<or> known_node builder e))
           (edges builder)
         \<and> list_all (\<lambda>(s, p). known_node builder s) (branches builder)
         \<and> START \<in> set (map fst (edges builder))
      then returns builder
      else raises (ValueError ''graph''))"

definition salesCompAgent_init :: "world \<Rightarrow> StateGraph eff" where
  "salesCompAgent_init self =
     and_then (add_node ''classifier'' (initial_classifier self) new_StateGraph) (\<lambda>builder.
     and_then (add_node ''policy'' (policy_agent self) builder) (\<lambda>builder.
     and_then (add_node ''commission'' (commission_agent self) builder) (\<lambda>builder.
     and_then (add_node ''contest'' (salesCompAgent_contest_agent self) builder) (\<lambda>builder.
     and_then (add_node ''ticket'' (salesCompAgent_ticket_agent self) builder) (\<lambda>builder.
     and_then (add_node ''clarify'' (clarify_agent self) builder) (\<lambda>builder.
     and_then (set_entry_point ''classifier'' builder) (\<lambda>builder.
     and_then (add_conditional_edges ''classifier'' main_router builder) (\<lambda>builder.
     and_then (add_edge ''policy'' END builder) (\<lambda>builder.
     and_then (add_edge ''commission'' END builder) (\<lambda>builder.
     and_then (add_edge ''contest'' END builder) (\<lambda>builder.
     and_then (add_edge ''ticket'' END builder) (\<lambda>builder.
     and_then (add_edge ''clarify'' END builder) (\<lambda>builder.
     compile builder)))))))))))))"

text \<open>
  Modelled from the spec: writing a node's result into the state. Each returned key
  overwrites the state's value; \<open>None\<close> writes nothing.
\<close>

fun merge :: "AgentState \<Rightarrow> node_result \<Rightarrow> AgentState" where
  "merge state None = state"
| "merge state (Some update) = state ++ update"

definition next_node :: "StateGraph \<Rightarrow> string \<Rightarrow> AgentState \<Rightarrow> string eff" where
  \<comment> \<open>Modelled from the spec: the routing function decides where one is registered, the
      plain edge otherwise.\<close>
  "next_node graph key state =
     (case map_of (branches graph) key of
        Some path \<Rightarrow>
          and_then (path state) (\<lambda>r.
            case r of PStr k \<Rightarrow> returns k | _ \<Rightarrow> raises (ValueError (str r)))
      | None \<Rightarrow>
          (case map_of (edges graph) key of Some k \<Rightarrow> returns k | None \<Rightarrow> returns END))"

text \<open>
  Modelled from the spec: the engine runs a node, writes its result, moves on, and stops at
  the end marker; it gives up with an error when the step limit is used up.
\<close>

fun run_from :: "StateGraph \<Rightarrow> nat \<Rightarrow> string \<Rightarrow> AgentState \<Rightarrow> AgentState eff" where
  "run_from graph 0 key state =
     (if key = END then returns state else raises GraphRecursionError)"
| "run_from graph (Suc limit) key state =
     (if key = END then returns state
      else case map_of (nodes graph) key of
             None \<Rightarrow> raises (ValueError key)
           | Some action \<Rightarrow>
               and_then (action state) (\<lambda>update.
               and_then (next_node graph key (merge state update)) (\<lambda>key'.
               run_from graph limit key' (merge state update))))"

definition graph_invoke :: "StateGraph \<Rightarrow> AgentState \<Rightarrow> AgentState eff" where
  \<comment> \<open>Modelled from the spec: a run starts at the entry point, with the library's default
      limit of 25 steps.\<close>
  "graph_invoke graph state =
     (case map_of (edges graph) START of
        None \<Rightarrow> raises (ValueError START)
      | Some key \<Rightarrow> run_from graph 25 key state)"

text \<open>
  Modelled from the spec: one conversation turn builds the agent and runs its graph on the
  incoming state.
\<close>

definition conversation_turn :: "world \<Rightarrow> AgentState \<Rightarrow> AgentState eff" where
  "conversation_turn self state =
     and_then (salesCompAgent_init self) (\<lambda>graph. graph_invoke graph state)"

section \<open>Sequences of writing steps\<close>

text \<open>
  Modelled from the spec: the state's lifecycle as a sequence of steps, each taken by one of
  the components that receive the state, in any order and number: the classifier, the router
  (which returns a node name and writes nothing), the handlers of graph.py, and the contest
  and ticket handlers of src/.
\<close>

datatype component =
    Classifier
  | Router
  | Policy
  | Commission
  | Contest
  | Ticket
  | Contest_placeholder
  | Ticket_placeholder
  | Clarify

fun component_update :: "world \<Rightarrow> component \<Rightarrow> AgentState \<Rightarrow> node_result eff" where
  "component_update self Classifier state = initial_classifier self state"
| "component_update self Router state = and_then (main_router state) (\<lambda>_. returns None)"
| "component_update self Policy state = policy_agent self state"
| "component_update self Commission state = commission_agent self state"
| "component_update self Contest state = ContestAgent_contest_agent self state"
| "component_update self Ticket state = ticket_agent self state"
| "component_update self Contest_placeholder state = salesCompAgent_contest_agent self state"
| "component_update self Ticket_placeholder state = salesCompAgent_ticket_agent self state"
| "component_update self Clarify state = clarify_agent self state"

fun steps :: "world \<Rightarrow> component list \<Rightarrow> AgentState \<Rightarrow> AgentState eff" where
  "steps self [] state = returns state"
| "steps self (c # cs) state =
     and_then (component_update self c state) (\<lambda>update. steps self cs (merge state update))"

section \<open>Observations and a sample environment for concrete runs\<close>

text \<open>The value a handler's returned dictionary holds under a key, if it returned one.\<close>

definition written :: "node_result eff \<Rightarrow> string \<Rightarrow> pyval option" where
  "written r k = (case snd r of Inr (Some update) \<Rightarrow> update k | _ \<Rightarrow> None)"

fun is_Send_email :: "event \<Rightarrow> bool" where
  "is_Send_email (Send_email from_email to_email subject html_content) = True"
| "is_Send_email _ = False"

definition sample_decision :: ContestDecision where
  "sample_decision =
     \<lparr>nextsteps = ''Please share your name and email.'', decision = ''askforuserinfo'',
      timeslot = None, email = None, name = None\<rparr>"

definition sample_world :: world where
  "sample_world =
     \<lparr>structured_Category = (\<lambda>_. Inr \<lparr>category = ''policy''\<rparr>),
      structured_PolicyResponse =
        (\<lambda>_. Inr \<lparr>policy = ''Minimum commission guarantee'',
                   PolicyResponse.response = ''It is a floor.''\<rparr>),
      structured_CommissionResponse =
        (\<lambda>_. Inr \<lparr>commission = ''$500'', calculation = ''10000 * 0.05'',
                   CommissionResponse.response = ''Your commission is $500.''\<rparr>),
      structured_ContestDecision = (\<lambda>_. Inr sample_decision),
      structured_TicketResponse =
        (\<lambda>_. Inr \<lparr>TicketResponse.response = ''I need your email.'', createTicket = False\<rparr>),
      structured_TicketEmail =
        (\<lambda>_. Inr \<lparr>TicketEmail.response = ''drafted'', htmlEmail = ''<p>Ticket</p>''\<rparr>),
      invoke = (\<lambda>_. Inr ''Please choose a time slot.''),
      create_llm_message = (\<lambda>p. Inr [SystemMessage p]),
      handle_appointment_request = Inr (PObj ''[Mon 10:00, Tue 11:00]''),
      book_appointment = (\<lambda>_ _. Inr (PStr ''Booked.'')),
      send_email = (\<lambda>_ _ _ _. Inr ()),
      read_file = (\<lambda>_. Inr ''https://example.com/intake''),
      markdown = (\<lambda>s. ''<p>'' @ s @ ''</p>'')\<rparr>"

definition sample_state :: AgentState where
  "sample_state = [''initialMessage'' \<mapsto> PStr ''What is minimum commission guarantee?'']"

definition world_deciding :: "ContestDecision \<Rightarrow> world" where
  "world_deciding d = sample_world\<lparr>structured_ContestDecision := (\<lambda>_. Inr d)\<rparr>"

definition world_classifying :: "string \<Rightarrow> world" where
  "world_classifying c = sample_world\<lparr>structured_Category := (\<lambda>_. Inr \<lparr>category = c\<rparr>)\<rparr>"

section \<open>Sequencing and evaluation lemmas\<close>

lemma and_then_Inr [simp]:
  "and_then (t, Inr x) f = (case f x of (t', r) \<Rightarrow> (t @ t', r))"
  by (simp add: and_then_def)

lemma and_then_Inl [simp]: "and_then (t, Inl e) f = (t, Inl e)"
  by (simp add: and_then_def)

lemma fst_and_then:
  "fst (and_then m f) = fst m @ (case snd m of Inl e \<Rightarrow> [] | Inr x \<Rightarrow> fst (f x))"
  by (simp add: and_then_def split: prod.splits sum.splits)

lemma and_then_result:
  "and_then m f = (t, Inr y) \<Longrightarrow> \<exists>t1 x t2. m = (t1, Inr x) \<and> f x = (t2, Inr y)"
  by (auto simp: and_then_def split: prod.splits sum.splits)

lemmas eff_defs = returns_def raises_def call_def print_def

lemmas agent_defs = initial_classifier_def policy_agent_def commission_agent_def
  ContestAgent_contest_agent_def generate_contest_response_def get_available_slots_def
  list_available_slots_def confirm_appointment_def get_contest_url_def
  ticket_agent_def generate_ticket_response_def generate_ticket_email_def
  getitem_def get_default_def HumanMessage_of_def

lemmas graph_defs = add_node_def add_edge_def set_entry_point_def add_conditional_edges_def
  compile_def known_node_def new_StateGraph_def START_def END_def

lemmas sample_defs = sample_world_def sample_state_def sample_decision_def

lemma salesCompAgent_init_graph:
  "salesCompAgent_init self =
     ([], Inr \<lparr>nodes = [(''classifier'', initial_classifier self),
                         (''policy'', policy_agent self),
                         (''commission'', commission_agent self),
                         (''contest'', salesCompAgent_contest_agent self),
                         (''ticket'', salesCompAgent_ticket_agent self),
                         (''clarify'', clarify_agent self)],
                edges = [(''__start__'', ''classifier''), (''policy'', ''__end__''),
                         (''commission'', ''__end__''), (''contest'', ''__end__''),
                         (''ticket'', ''__end__''), (''clarify'', ''__end__'')],
                branches = [(''classifier'', main_router)]\<rparr>)"
  by (simp add: salesCompAgent_init_def graph_defs eff_defs)

lemma initial_classifier_result:
  assumes "state ''initialMessage'' = Some (PStr m)"
    and "structured_Category self [SystemMessage classifier_prompt, HumanMessage m] = Inr r"
  shows "initial_classifier self state =
           ([Print ''initial classifier'',
             StructuredInvoke Category_schema [SystemMessage classifier_prompt, HumanMessage m],
             Print (''category is '' @ category r)],
            Inr (Some [''lnode'' \<mapsto> PStr ''initial_classifier'',
                       ''responseToUser'' \<mapsto> PStr ''Classifier successful'',
                       ''category'' \<mapsto> PStr (category r)]))"
  using assms by (simp add: agent_defs eff_defs)

lemma run_from_END: "run_from graph limit ''__end__'' state = ([], Inr state)"
  by (cases limit) (simp_all add: END_def returns_def)

lemma conversation_turn_placeholder:
  assumes "state ''initialMessage'' = Some (PStr m)"
    and "structured_Category self [SystemMessage classifier_prompt, HumanMessage m] = Inr r"
    and "category r \<in> {''contest'', ''ticket'', ''clarify''}"
  shows "conversation_turn self state =
           ([Print ''initial classifier'',
             StructuredInvoke Category_schema [SystemMessage classifier_prompt, HumanMessage m],
             Print (''category is '' @ category r),
             Print (category r @ '' agent'')],
            Inr (state ++ [''lnode'' \<mapsto> PStr ''initial_classifier'',
                           ''responseToUser'' \<mapsto> PStr ''Classifier successful'',
                           ''category'' \<mapsto> PStr (category r)]))"
proof -
  have limit: "(25::nat) = Suc (Suc 23)"
    by simp
  have classify: "initial_classifier self state =
           ([Print ''initial classifier'',
             StructuredInvoke Category_schema [SystemMessage classifier_prompt, HumanMessage m],
             Print (''category is '' @ category r)],
            Inr (Some [''lnode'' \<mapsto> PStr ''initial_classifier'',
                       ''responseToUser'' \<mapsto> PStr ''Classifier successful'',
                       ''category'' \<mapsto> PStr (category r)]))"
    using assms(1,2) by (rule initial_classifier_result)
  from assms(3) show ?thesis
    unfolding conversation_turn_def salesCompAgent_init_graph graph_invoke_def limit
    by (auto simp del: Suc_numeral
          simp: run_from_END next_node_def classify main_router_def getitem_def
          VALID_CATEGORIES_def salesCompAgent_contest_agent_def salesCompAgent_ticket_agent_def
          clarify_agent_def START_def END_def eff_defs)
qed

lemma component_update_keeps_initialMessage:
  assumes "component_update self c state = (t, Inr (Some update))"
  shows "update ''initialMessage'' = None"
proof (cases c)
  case Classifier
  with assms show ?thesis
    by (auto simp: agent_defs eff_defs and_then_def split: option.splits pyval.splits sum.splits)
next
  case Router
  with assms show ?thesis
    by (auto simp: main_router_def getitem_def eff_defs and_then_def
             split: option.splits pyval.splits sum.splits if_splits prod.splits)
next
  case Policy
  with assms show ?thesis
    by (auto simp: agent_defs eff_defs and_then_def Let_def
             split: option.splits pyval.splits sum.splits)
next
  case Commission
  with assms show ?thesis
    by (auto simp: agent_defs eff_defs and_then_def Let_def
             split: option.splits pyval.splits sum.splits)
next
  case Contest
  with assms show ?thesis
    by (auto simp: agent_defs eff_defs and_then_def Let_def
             split: sum.splits if_splits prod.splits)
next
  case Ticket
  with assms show ?thesis
    by (auto simp: agent_defs eff_defs and_then_def Let_def
             split: sum.splits if_splits prod.splits)
next
  case Contest_placeholder
  with assms show ?thesis
    by (simp add: salesCompAgent_contest_agent_def eff_defs)
next
  case Ticket_placeholder
  with assms show ?thesis
    by (simp add: salesCompAgent_ticket_agent_def eff_defs)
next
  case Clarify
  with assms show ?thesis
    by (simp add: clarify_agent_def eff_defs)
qed

lemma merge_keeps_initialMessage:
  assumes "component_update self c state = (t, Inr update)"
  shows "merge state update ''initialMessage'' = state ''initialMessage''"
proof (cases update)
  case None
  then show ?thesis by simp
next
  case (Some u)
  with assms have "u ''initialMessage'' = None"
    by (auto dest: component_update_keeps_initialMessage)
  with Some show ?thesis by (simp add: map_add_def)
qed

lemma steps_keep_initialMessage:
  "steps self cs state = (t, Inr state') \<Longrightarrow> state' ''initialMessage'' = state ''initialMessage''"
proof (induction cs arbitrary: state t)
  case Nil
  then show ?case by (simp add: returns_def)
next
  case (Cons c cs)
  from Cons.prems obtain t1 update t2
    where first: "component_update self c state = (t1, Inr update)"
      and rest: "steps self cs (merge state update) = (t2, Inr state')"
    by (auto dest!: and_then_result)
  from Cons.IH [OF rest] merge_keeps_initialMessage [OF first] show ?case by simp
qed

section \<open>The router\<close>

text \<open>
  C1. The router is a function of the category string alone and raises nothing on it: for a
  state whose category is one of the five values policy, commission, contest, ticket, clarify
  it returns that same string, with no event at all; for every other string (the empty string
  and a policy name written back as category among them) it returns the terminate marker
  \<open>END\<close>. It calls no collaborator and writes no state; on the terminate branch it
  prints the diagnostic note "unknown category: ...".
\<close>

theorem main_router_total:
  assumes "state ''category'' = Some (PStr c)"
  shows "main_router state =
           (if c \<in> {''policy'', ''commission'', ''contest'', ''ticket'', ''clarify''}
            then ([], Inr (PStr c))
            else ([Print (''unknown category: '' @ c)], Inr (PStr END)))"
  using assms by (simp add: main_router_def getitem_def VALID_CATEGORIES_def eff_defs)

theorem main_router_total_witness:
  "main_router [''category'' \<mapsto> PStr ''policy''] = ([], Inr (PStr ''policy''))
   \<and> main_router [''category'' \<mapsto> PStr ''commission''] = ([], Inr (PStr ''commission''))
   \<and> main_router [''category'' \<mapsto> PStr ''contest''] = ([], Inr (PStr ''contest''))
   \<and> main_router [''category'' \<mapsto> PStr ''ticket''] = ([], Inr (PStr ''ticket''))
   \<and> main_router [''category'' \<mapsto> PStr ''clarify''] = ([], Inr (PStr ''clarify''))
   \<and> main_router [''category'' \<mapsto> PStr ''''] = ([Print ''unknown category: ''], Inr (PStr END))
   \<and> main_router [''category'' \<mapsto> PStr ''Minimum commission guarantee'']
       = ([Print ''unknown category: Minimum commission guarantee''], Inr (PStr END))"
  using main_router_total [of "[''category'' \<mapsto> PStr ''policy'']" "''policy''"]
        main_router_total [of "[''category'' \<mapsto> PStr ''commission'']" "''commission''"]
        main_router_total [of "[''category'' \<mapsto> PStr ''contest'']" "''contest''"]
        main_router_total [of "[''category'' \<mapsto> PStr ''ticket'']" "''ticket''"]
        main_router_total [of "[''category'' \<mapsto> PStr ''clarify'']" "''clarify''"]
        main_router_total [of "[''category'' \<mapsto> PStr '''']" "''''"]
        main_router_total [of "[''category'' \<mapsto> PStr ''Minimum commission guarantee'']" "''Minimum commission guarantee''"]
  by simp

section \<open>The policy and commission handlers\<close>

text \<open>
  C2, as the code has it. The policy handler checks nothing about the policy name: the
  returned category is the \<open>policy\<close> field of the model's structured answer, whatever
  string that is, and \<open>responseToUser\<close> is the answer's \<open>response\<close> followed by
  a space, two newlines, " Source: " and that policy field. A model answering with the policy field "policy"
  leaves the category at the literal string "policy".
\<close>

theorem policy_agent_result:
  assumes "state ''initialMessage'' = Some (PStr m)"
    and "structured_PolicyResponse self [SystemMessage POLICY_PROMPT, HumanMessage m] = Inr r"
  shows "policy_agent self state =
           ([Print ''policy agent'',
             StructuredInvoke PolicyResponse_schema [SystemMessage POLICY_PROMPT, HumanMessage m],
             Print (''Policy is: '' @ policy r @ '', Response is: '' @ PolicyResponse.response r)],
            Inr (Some [''lnode'' \<mapsto> PStr ''initial_classifier'',
                       ''responseToUser'' \<mapsto>
                          PStr (PolicyResponse.response r @ '' '' @ [CHR 0x0A, CHR 0x0A]
                                @ '' Source: '' @ policy r),
                       ''category'' \<mapsto> PStr (policy r)]))"
  using assms
  by (simp add: policy_agent_def getitem_def HumanMessage_of_def eff_defs Let_def)

theorem policy_agent_result_witness:
  "policy_agent sample_world sample_state =
     ([Print ''policy agent'',
       StructuredInvoke PolicyResponse_schema
         [SystemMessage POLICY_PROMPT, HumanMessage ''What is minimum commission guarantee?''],
       Print ''Policy is: Minimum commission guarantee, Response is: It is a floor.''],
      Inr (Some [''lnode'' \<mapsto> PStr ''initial_classifier'',
                 ''responseToUser'' \<mapsto>
                    PStr (''It is a floor. '' @ [CHR 0x0A, CHR 0x0A]
                          @ '' Source: Minimum commission guarantee''),
                 ''category'' \<mapsto> PStr ''Minimum commission guarantee'']))"
  using policy_agent_result [of sample_state "''What is minimum commission guarantee?''" sample_world
      "\<lparr>policy = ''Minimum commission guarantee'', PolicyResponse.response = ''It is a floor.''\<rparr>"]
  by (simp add: sample_world_def sample_state_def)

theorem policy_agent_category_counterexample:
  "written (policy_agent
              (sample_world\<lparr>structured_PolicyResponse :=
                  (\<lambda>_. Inr \<lparr>policy = ''policy'', PolicyResponse.response = ''See the plan.''\<rparr>)\<rparr>)
              sample_state) ''category''
     = Some (PStr ''policy'')"
  by (simp add: written_def policy_agent_def sample_world_def sample_state_def getitem_def
        HumanMessage_of_def eff_defs Let_def)

text \<open>
  C8. The commission handler's \<open>responseToUser\<close> is the model's response text followed
  by a space, two newlines, " Source: ", the structured calculation field, a full stop, a
  newline, " Commission: " and the structured commission field. The three strings are concatenated as they are; the handler computes
  nothing from them.
\<close>

theorem commission_agent_result:
  assumes "state ''initialMessage'' = Some (PStr m)"
    and "structured_CommissionResponse self [SystemMessage COMMISSION_PROMPT, HumanMessage m] = Inr r"
  shows "commission_agent self state =
           ([Print ''commission agent'',
             StructuredInvoke CommissionResponse_schema
               [SystemMessage COMMISSION_PROMPT, HumanMessage m],
             Print (''Commission is '' @ commission r @ '', Calculation is '' @ calculation r
                    @ '', Response is '' @ CommissionResponse.response r)],
            Inr (Some [''lnode'' \<mapsto> PStr ''initial_classifier'',
                       ''responseToUser'' \<mapsto>
                          PStr (CommissionResponse.response r @ '' '' @ [CHR 0x0A, CHR 0x0A]
                                @ '' Source: '' @ calculation r @ ''.'' @ [CHR 0x0A]
                                @ '' Commission: '' @ commission r),
                       ''category'' \<mapsto> PStr (calculation r)]))"
  using assms
  by (simp add: commission_agent_def getitem_def HumanMessage_of_def eff_defs Let_def)

theorem commission_agent_result_witness:
  "commission_agent sample_world sample_state =
     ([Print ''commission agent'',
       StructuredInvoke CommissionResponse_schema
         [SystemMessage COMMISSION_PROMPT, HumanMessage ''What is minimum commission guarantee?''],
       Print ''Commission is $500, Calculation is 10000 * 0.05, Response is Your commission is $500.''],
      Inr (Some [''lnode'' \<mapsto> PStr ''initial_classifier'',
                 ''responseToUser'' \<mapsto>
                    PStr (''Your commission is $500. '' @ [CHR 0x0A, CHR 0x0A]
                          @ '' Source: 10000 * 0.05.'' @ [CHR 0x0A] @ '' Commission: $500''),
                 ''category'' \<mapsto> PStr ''10000 * 0.05'']))"
  using commission_agent_result [of sample_state "''What is minimum commission guarantee?''"
      sample_world
      "\<lparr>commission = ''$500'', calculation = ''10000 * 0.05'',
        CommissionResponse.response = ''Your commission is $500.''\<rparr>"]
  by (simp add: sample_world_def sample_state_def)

text \<open>
  C3. The \<open>lnode\<close> each writing component returns, on the sample run: the classifier
  writes "initial_classifier", the contest handler "contest_agent" and the ticket handler
  "ticket_agent", but the policy handler and the commission handler both write
  "initial_classifier", the classifier's identifier, not their own.
\<close>

theorem lnode_written_by_handlers:
  "written (initial_classifier sample_world sample_state) ''lnode'' = Some (PStr ''initial_classifier'')
   \<and> written (policy_agent sample_world sample_state) ''lnode'' = Some (PStr ''initial_classifier'')
   \<and> written (commission_agent sample_world sample_state) ''lnode'' = Some (PStr ''initial_classifier'')
   \<and> written (ContestAgent_contest_agent sample_world sample_state) ''lnode'' = Some (PStr ''contest_agent'')
   \<and> written (ticket_agent sample_world sample_state) ''lnode'' = Some (PStr ''ticket_agent'')"
  by (simp add: written_def agent_defs sample_world_def sample_state_def sample_decision_def
        eff_defs Let_def)

section \<open>The contest handler\<close>

text \<open>
  C4. Whatever decision the model returns, a record returned by the contest handler has
  category equal to the literal "contest". For a decision other than BookAppointment and
  ConfirmAppointment (AppointmentComplete and any other string) the handler calls nothing
  further and returns the model's next steps under that category.
\<close>

theorem contest_agent_category_fixed:
  assumes "create_llm_message self contest_prompt = Inr msgs"
    and "structured_ContestDecision self msgs = Inr d"
  shows "(\<forall>t r. ContestAgent_contest_agent self state = (t, Inr r) \<longrightarrow>
            (\<exists>update. r = Some update \<and> update ''category'' = Some (PStr ''contest'')))
         \<and> (decision d \<noteq> ''BookAppointment'' \<and> decision d \<noteq> ''ConfirmAppointment'' \<longrightarrow>
              ContestAgent_contest_agent self state =
                ([Create_llm_message contest_prompt, StructuredInvoke ContestDecision_schema msgs],
                 Inr (Some [''lnode'' \<mapsto> PStr ''contest_agent'',
                            ''responseToUser'' \<mapsto> PStr (nextsteps d),
                            ''category'' \<mapsto> PStr ''contest''])))"
proof (intro conjI allI impI)
  fix t r
  assume run: "ContestAgent_contest_agent self state = (t, Inr r)"
  show "\<exists>update. r = Some update \<and> update ''category'' = Some (PStr ''contest'')"
  proof (cases "decision d = ''BookAppointment''")
    case True
    with run assms show ?thesis
      by (cases "handle_appointment_request self";
          cases "invoke self (time_slot_prompt (str (projr (handle_appointment_request self))))")
         (auto simp: agent_defs eff_defs)
  next
    case False
    with run assms show ?thesis
      by (cases "book_appointment self (timeslot d) (email d)";
          cases "read_file self ''contesturl.txt''";
          cases "send_email self ''malihajburney@gmail.com'' (email d)
                   ''Please complete the SPIF/Sales Contest Intake Form''
                   (markdown self (projr (read_file self ''contesturl.txt'')))")
         (auto simp: agent_defs eff_defs Let_def split: if_splits)
  qed
next
  assume "decision d \<noteq> ''BookAppointment'' \<and> decision d \<noteq> ''ConfirmAppointment''"
  with assms show "ContestAgent_contest_agent self state =
                ([Create_llm_message contest_prompt, StructuredInvoke ContestDecision_schema msgs],
                 Inr (Some [''lnode'' \<mapsto> PStr ''contest_agent'',
                            ''responseToUser'' \<mapsto> PStr (nextsteps d),
                            ''category'' \<mapsto> PStr ''contest'']))"
    by (simp add: agent_defs eff_defs)
qed

theorem contest_agent_category_fixed_witness:
  "written (ContestAgent_contest_agent
              (world_deciding (sample_decision\<lparr>decision := ''BookAppointment''\<rparr>)) sample_state)
           ''category'' = Some (PStr ''contest'')
   \<and> written (ContestAgent_contest_agent
              (world_deciding (sample_decision\<lparr>decision := ''ConfirmAppointment''\<rparr>)) sample_state)
           ''category'' = Some (PStr ''contest'')
   \<and> written (ContestAgent_contest_agent
              (world_deciding (sample_decision\<lparr>decision := ''AppointmentComplete''\<rparr>)) sample_state)
           ''category'' = Some (PStr ''contest'')
   \<and> written (ContestAgent_contest_agent
              (world_deciding (sample_decision\<lparr>decision := ''Other''\<rparr>)) sample_state)
           ''category'' = Some (PStr ''contest'')"
proof -
  let ?w = "\<lambda>x. world_deciding (sample_decision\<lparr>decision := x\<rparr>)"
  have fixed: "\<exists>update. r = Some update \<and> update ''category'' = Some (PStr ''contest'')"
    if "ContestAgent_contest_agent (?w x) sample_state = (t, Inr r)" for x t r
    using that
      contest_agent_category_fixed [of "?w x" "[SystemMessage contest_prompt]"
        "sample_decision\<lparr>decision := x\<rparr>" sample_state]
    by (simp add: sample_defs world_deciding_def)
  have book: "\<exists>t r. ContestAgent_contest_agent (?w ''BookAppointment'') sample_state = (t, Inr r)"
    by (simp add: agent_defs eff_defs sample_defs world_deciding_def)
  have confirm: "\<exists>t r. ContestAgent_contest_agent (?w ''ConfirmAppointment'') sample_state = (t, Inr r)"
    by (simp add: agent_defs eff_defs sample_defs world_deciding_def Let_def)
  have complete: "\<exists>t r. ContestAgent_contest_agent (?w ''AppointmentComplete'') sample_state = (t, Inr r)"
    by (simp add: agent_defs eff_defs sample_defs world_deciding_def)
  have other: "\<exists>t r. ContestAgent_contest_agent (?w ''Other'') sample_state = (t, Inr r)"
    by (simp add: agent_defs eff_defs sample_defs world_deciding_def)
  have "written (ContestAgent_contest_agent (?w x) sample_state) ''category'' = Some (PStr ''contest'')"
    if "\<exists>t r. ContestAgent_contest_agent (?w x) sample_state = (t, Inr r)" for x
    using that fixed [of x] by (auto simp: written_def)
  with book confirm complete other show ?thesis by blast
qed

text \<open>
  C5. When the structured decision is BookAppointment and the collaborators answer, the
  handler first fetches the available slots from the scheduling collaborator, then formats
  them with a plain completion call (not a structured one): the text sent to the model is the
  scheduler instruction with the fetched slots written after "Available slots: ". It returns
  the model's formatted text as \<open>responseToUser\<close> together with the name and email
  fields of the decision.
\<close>

theorem contest_agent_book_appointment:
  assumes \<open>create_llm_message self contest_prompt = Inr msgs\<close>
    and \<open>structured_ContestDecision self msgs = Inr d\<close>
    and \<open>decision d = ''BookAppointment''\<close>
    and \<open>handle_appointment_request self = Inr available_slots\<close>
    and \<open>invoke self (time_slot_prompt (str available_slots)) = Inr content\<close>
  shows \<open>ContestAgent_contest_agent self state =
           ([Create_llm_message contest_prompt,
             StructuredInvoke ContestDecision_schema msgs,
             Handle_appointment_request,
             ModelInvoke (join_lines
               ['''',
                ''         You are an appointment booking scheduler. Present the following slots in a brief, easy-to-read format. Keep '',
                ''         the message compact but always maintain a friendly, professional, and helpful tone throughout the interaction.'',
                '''',
                ''        Available slots: '' @ str available_slots,
                '''',
                ''        Instructions:'',
                ''        1. Tell the user that they need to book a consultation with Sales Comp team and you will help them book an appointment '',
                ''        2. List the slots in a clean and easy to read format'',
                ''        3. Keep your message under 100 words'',
                ''        4. Simply ask "Please choose a time slot."'',
                ''        ''])],
            Inr (Some [''lnode'' \<mapsto> PStr ''contest_agent'',
                       ''responseToUser'' \<mapsto> PStr content,
                       ''category'' \<mapsto> PStr ''contest'',
                       ''name'' \<mapsto> of_optional (name d),
                       ''email'' \<mapsto> of_optional (email d)]))\<close>
proof -
  have run: \<open>ContestAgent_contest_agent self state =
           ([Create_llm_message contest_prompt,
             StructuredInvoke ContestDecision_schema msgs,
             Handle_appointment_request,
             ModelInvoke (time_slot_prompt (str available_slots))],
            Inr (Some [''lnode'' \<mapsto> PStr ''contest_agent'',
                       ''responseToUser'' \<mapsto> PStr content,
                       ''category'' \<mapsto> PStr ''contest'',
                       ''name'' \<mapsto> of_optional (name d),
                       ''email'' \<mapsto> of_optional (email d)]))\<close>
    using assms by (simp add: agent_defs eff_defs)
  show ?thesis
    unfolding run time_slot_prompt_def by (rule refl)
qed

theorem contest_agent_book_appointment_witness:
  \<open>ContestAgent_contest_agent
     (world_deciding \<lparr>nextsteps = ''Pick a slot.'', decision = ''BookAppointment'',
                       timeslot = None, email = Some ''ann@example.com'', name = Some ''Ann Lee''\<rparr>)
     sample_state =
     ([Create_llm_message contest_prompt,
       StructuredInvoke ContestDecision_schema [SystemMessage contest_prompt],
       Handle_appointment_request,
       ModelInvoke (join_lines
         ['''',
          ''         You are an appointment booking scheduler. Present the following slots in a brief, easy-to-read format. Keep '',
          ''         the message compact but always maintain a friendly, professional, and helpful tone throughout the interaction.'',
          '''',
          ''        Available slots: [Mon 10:00, Tue 11:00]'',
          '''',
          ''        Instructions:'',
          ''        1. Tell the user that they need to book a consultation with Sales Comp team and you will help them book an appointment '',
          ''        2. List the slots in a clean and easy to read format'',
          ''        3. Keep your message under 100 words'',
          ''        4. Simply ask "Please choose a time slot."'',
          ''        ''])],
      Inr (Some [''lnode'' \<mapsto> PStr ''contest_agent'',
                 ''responseToUser'' \<mapsto> PStr ''Please choose a time slot.'',
                 ''category'' \<mapsto> PStr ''contest'',
                 ''name'' \<mapsto> PStr ''Ann Lee'',
                 ''email'' \<mapsto> PStr ''ann@example.com'']))\<close>
  using contest_agent_book_appointment
    [where self = "world_deciding \<lparr>nextsteps = ''Pick a slot.'', decision = ''BookAppointment'',
                       timeslot = None, email = Some ''ann@example.com'', name = Some ''Ann Lee''\<rparr>"
       and msgs = "[SystemMessage contest_prompt]"
       and d = "\<lparr>nextsteps = ''Pick a slot.'', decision = ''BookAppointment'',
                       timeslot = None, email = Some ''ann@example.com'', name = Some ''Ann Lee''\<rparr>"
       and available_slots = "PObj ''[Mon 10:00, Tue 11:00]''"
       and content = "''Please choose a time slot.''" and state = sample_state]
  by (simp add: sample_defs world_deciding_def)

text \<open>
  C10. In the ConfirmAppointment branch the decision's optional timeslot and email go to the
  booking collaborator as they are, present or absent, and when the booking and the reading
  of the contest URL succeed the email collaborator is called with that same optional email
  as recipient. With both fields absent the two calls are still made, with \<open>None\<close>.
\<close>

theorem contest_agent_confirm_unchecked:
  assumes "create_llm_message self contest_prompt = Inr msgs"
    and "structured_ContestDecision self msgs = Inr d"
    and "decision d = ''ConfirmAppointment''"
  shows "take 3 (fst (ContestAgent_contest_agent self state)) =
           [Create_llm_message contest_prompt,
            StructuredInvoke ContestDecision_schema msgs,
            Book_appointment (timeslot d) (email d)]
         \<and> (book_appointment self (timeslot d) (email d) = Inr confirmation
              \<and> read_file self ''contesturl.txt'' = Inr contest_url \<longrightarrow>
            fst (ContestAgent_contest_agent self state) =
              [Create_llm_message contest_prompt,
               StructuredInvoke ContestDecision_schema msgs,
               Book_appointment (timeslot d) (email d),
               Open_read ''contesturl.txt'',
               Send_email ''malihajburney@gmail.com'' (email d)
                 ''Please complete the SPIF/Sales Contest Intake Form''
                 (markdown self contest_url)])"
proof (intro conjI impI)
  show "take 3 (fst (ContestAgent_contest_agent self state)) =
           [Create_llm_message contest_prompt,
            StructuredInvoke ContestDecision_schema msgs,
            Book_appointment (timeslot d) (email d)]"
    using assms
    by (simp add: agent_defs eff_defs fst_and_then split_beta split: sum.splits)
next
  assume "book_appointment self (timeslot d) (email d) = Inr confirmation
          \<and> read_file self ''contesturl.txt'' = Inr contest_url"
  with assms show "fst (ContestAgent_contest_agent self state) =
              [Create_llm_message contest_prompt,
               StructuredInvoke ContestDecision_schema msgs,
               Book_appointment (timeslot d) (email d),
               Open_read ''contesturl.txt'',
               Send_email ''malihajburney@gmail.com'' (email d)
                 ''Please complete the SPIF/Sales Contest Intake Form''
                 (markdown self contest_url)]"
    by (cases "send_email self ''malihajburney@gmail.com'' (email d)
               ''Please complete the SPIF/Sales Contest Intake Form'' (markdown self contest_url)")
       (simp_all add: agent_defs eff_defs Let_def)
qed

theorem contest_agent_confirm_unchecked_witness:
  "fst (ContestAgent_contest_agent
          (world_deciding \<lparr>nextsteps = ''Confirming.'', decision = ''ConfirmAppointment'',
                            timeslot = None, email = None, name = Some ''Ann Lee''\<rparr>)
          sample_state) =
     [Create_llm_message contest_prompt,
      StructuredInvoke ContestDecision_schema [SystemMessage contest_prompt],
      Book_appointment None None,
      Open_read ''contesturl.txt'',
      Send_email ''malihajburney@gmail.com'' None
        ''Please complete the SPIF/Sales Contest Intake Form'' ''<p>https://example.com/intake</p>'']"
  using contest_agent_confirm_unchecked
    [where self = "world_deciding \<lparr>nextsteps = ''Confirming.'', decision = ''ConfirmAppointment'',
                            timeslot = None, email = None, name = Some ''Ann Lee''\<rparr>"
       and msgs = "[SystemMessage contest_prompt]"
       and d = "\<lparr>nextsteps = ''Confirming.'', decision = ''ConfirmAppointment'',
                            timeslot = None, email = None, name = Some ''Ann Lee''\<rparr>"
       and confirmation = "PStr ''Booked.''" and contest_url = "''https://example.com/intake''"
       and state = sample_state]
  by (simp add: sample_defs world_deciding_def)

section \<open>The ticket handler\<close>

text \<open>
  C6. In the ticket handler, when the collaborators answer, an email to the fixed support
  address is sent exactly when the structured ticket response has \<open>createTicket\<close> true:
  then exactly one email, whose body is the \<open>htmlEmail\<close> of a second structured
  completion; otherwise none. Either way the returned state has \<open>responseToUser\<close> equal
  to the response field and category "ticket".
\<close>

theorem ticket_agent_email_iff_createTicket:
  assumes "create_llm_message self
             (ticket_prompt (str (get_default state ''initialMessage'' (PStr [])))) = Inr msgs"
    and "structured_TicketResponse self msgs = Inr r"
    and "createTicket r \<longrightarrow>
           create_llm_message self ticket_email_prompt = Inr msgs'
           \<and> structured_TicketEmail self msgs' = Inr draft
           \<and> send_email self ''malihajburney@gmail.com'' (Some ''i_jahangir@hotmail.com'')
                ''New Ticket from SalesCompAgent'' (htmlEmail draft) = Inr ()"
  shows "ticket_agent self state =
           ([Create_llm_message
               (ticket_prompt (str (get_default state ''initialMessage'' (PStr [])))),
             StructuredInvoke TicketResponse_schema msgs]
            @ (if createTicket r
               then [Create_llm_message ticket_email_prompt,
                     StructuredInvoke TicketEmail_schema msgs',
                     Send_email ''malihajburney@gmail.com'' (Some ''i_jahangir@hotmail.com'')
                       ''New Ticket from SalesCompAgent'' (htmlEmail draft)]
               else []),
            Inr (Some [''lnode'' \<mapsto> PStr ''ticket_agent'',
                       ''responseToUser'' \<mapsto> PStr (TicketResponse.response r),
                       ''category'' \<mapsto> PStr ''ticket'']))
         \<and> filter is_Send_email (fst (ticket_agent self state)) =
             (if createTicket r
              then [Send_email ''malihajburney@gmail.com'' (Some ''i_jahangir@hotmail.com'')
                      ''New Ticket from SalesCompAgent'' (htmlEmail draft)]
              else [])"
  using assms by (simp add: agent_defs eff_defs)

theorem ticket_agent_email_iff_createTicket_witness:
  "filter is_Send_email
     (fst (ticket_agent
             (sample_world\<lparr>structured_TicketResponse :=
                 (\<lambda>_. Inr \<lparr>TicketResponse.response = ''Thank you Ann, ticket created.'',
                            createTicket = True\<rparr>)\<rparr>)
             sample_state))
     = [Send_email ''malihajburney@gmail.com'' (Some ''i_jahangir@hotmail.com'')
          ''New Ticket from SalesCompAgent'' ''<p>Ticket</p>'']
   \<and> filter is_Send_email (fst (ticket_agent sample_world sample_state)) = []
   \<and> written (ticket_agent sample_world sample_state) ''responseToUser''
       = Some (PStr ''I need your email.'')
   \<and> written (ticket_agent sample_world sample_state) ''category'' = Some (PStr ''ticket'')"
  using ticket_agent_email_iff_createTicket
    [of "sample_world\<lparr>structured_TicketResponse :=
                 (\<lambda>_. Inr \<lparr>TicketResponse.response = ''Thank you Ann, ticket created.'',
                            createTicket = True\<rparr>)\<rparr>"
        sample_state
        "[SystemMessage (ticket_prompt ''What is minimum commission guarantee?'')]"
        "\<lparr>TicketResponse.response = ''Thank you Ann, ticket created.'', createTicket = True\<rparr>"
        "[SystemMessage ticket_email_prompt]"
        "\<lparr>TicketEmail.response = ''drafted'', htmlEmail = ''<p>Ticket</p>''\<rparr>"]
    ticket_agent_email_iff_createTicket
    [of sample_world sample_state
        "[SystemMessage (ticket_prompt ''What is minimum commission guarantee?'')]"
        "\<lparr>TicketResponse.response = ''I need your email.'', createTicket = False\<rparr>"
        "[]" "\<lparr>TicketEmail.response = [], htmlEmail = []\<rparr>"]
  by (simp add: sample_defs get_default_def written_def)

section \<open>The graph and the state across steps\<close>

text \<open>
  C7, as the code has it. Building the graph succeeds with the contest, ticket and clarify
  nodes bound to the placeholder handlers: nothing validates what a handler does. When the
  classifier answers contest, ticket or clarify, the placeholder is invoked during the run,
  prints its diagnostic, writes nothing, and the conversation ends with the state the
  classifier left (\<open>responseToUser\<close> "Classifier successful").
\<close>

theorem placeholder_invoked_at_runtime:
  assumes "state ''initialMessage'' = Some (PStr m)"
    and "structured_Category self [SystemMessage classifier_prompt, HumanMessage m] = Inr r"
    and "category r \<in> {''contest'', ''ticket'', ''clarify''}"
  shows "(\<exists>graph. salesCompAgent_init self = ([], Inr graph)
            \<and> map_of (nodes graph) ''contest'' = Some (salesCompAgent_contest_agent self)
            \<and> map_of (nodes graph) ''ticket'' = Some (salesCompAgent_ticket_agent self)
            \<and> map_of (nodes graph) ''clarify'' = Some (clarify_agent self))
         \<and> conversation_turn self state =
           ([Print ''initial classifier'',
             StructuredInvoke Category_schema [SystemMessage classifier_prompt, HumanMessage m],
             Print (''category is '' @ category r),
             Print (category r @ '' agent'')],
            Inr (state ++ [''lnode'' \<mapsto> PStr ''initial_classifier'',
                           ''responseToUser'' \<mapsto> PStr ''Classifier successful'',
                           ''category'' \<mapsto> PStr (category r)]))"
proof
  show "\<exists>graph. salesCompAgent_init self = ([], Inr graph)
            \<and> map_of (nodes graph) ''contest'' = Some (salesCompAgent_contest_agent self)
            \<and> map_of (nodes graph) ''ticket'' = Some (salesCompAgent_ticket_agent self)
            \<and> map_of (nodes graph) ''clarify'' = Some (clarify_agent self)"
    by (simp add: salesCompAgent_init_graph)
qed (use assms in \<open>rule conversation_turn_placeholder\<close>)

theorem placeholder_invoked_at_runtime_witness:
  "conversation_turn (world_classifying ''ticket'') sample_state =
     ([Print ''initial classifier'',
       StructuredInvoke Category_schema
         [SystemMessage classifier_prompt, HumanMessage ''What is minimum commission guarantee?''],
       Print ''category is ticket'',
       Print ''ticket agent''],
      Inr (sample_state ++ [''lnode'' \<mapsto> PStr ''initial_classifier'',
                            ''responseToUser'' \<mapsto> PStr ''Classifier successful'',
                            ''category'' \<mapsto> PStr ''ticket'']))"
  using placeholder_invoked_at_runtime
    [where self = "world_classifying ''ticket''" and state = sample_state
       and m = "''What is minimum commission guarantee?''" and r = "\<lparr>category = ''ticket''\<rparr>"]
  by (simp add: sample_defs world_classifying_def)

theorem placeholder_not_rejected_counterexample:
  "\<not> isl (snd (salesCompAgent_init (world_classifying ''contest'')))
   \<and> fst (conversation_turn (world_classifying ''contest'') sample_state) =
       [Print ''initial classifier'',
        StructuredInvoke Category_schema
          [SystemMessage classifier_prompt, HumanMessage ''What is minimum commission guarantee?''],
        Print ''category is contest'',
        Print ''contest agent'']
   \<and> snd (conversation_turn (world_classifying ''contest'') sample_state) =
       Inr [''initialMessage'' \<mapsto> PStr ''What is minimum commission guarantee?'',
            ''lnode'' \<mapsto> PStr ''initial_classifier'',
            ''responseToUser'' \<mapsto> PStr ''Classifier successful'',
            ''category'' \<mapsto> PStr ''contest'']"
  using conversation_turn_placeholder
    [where self = "world_classifying ''contest''" and state = sample_state
       and m = "''What is minimum commission guarantee?''" and r = "\<lparr>category = ''contest''\<rparr>"]
  by (simp add: salesCompAgent_init_graph sample_defs world_classifying_def)

text \<open>
  C9. No component puts the key \<open>initialMessage\<close> in the dictionary it returns, so after
  any sequence of steps that runs to its end the state's \<open>initialMessage\<close> is the one it
  started with.
\<close>

theorem initialMessage_immutable:
  "(\<forall>t update. component_update self c state = (t, Inr (Some update)) \<longrightarrow>
       update ''initialMessage'' = None)
   \<and> (\<forall>t state'. steps self cs state = (t, Inr state') \<longrightarrow>
       state' ''initialMessage'' = state ''initialMessage'')"
  using component_update_keeps_initialMessage steps_keep_initialMessage by blast

theorem initialMessage_immutable_witness:
  "(case snd (steps sample_world [Classifier, Router, Policy, Contest, Ticket]
               sample_state) of
      Inr state' \<Rightarrow>
        state' ''initialMessage'' = Some (PStr ''What is minimum commission guarantee?'')
    | Inl e \<Rightarrow> False)"
proof -
  have "\<exists>t state'. steps sample_world [Classifier, Router, Policy, Contest, Ticket]
                      sample_state = (t, Inr state')"
    by (simp add: agent_defs main_router_def VALID_CATEGORIES_def eff_defs sample_defs Let_def)
  then obtain t state'
    where run: "steps sample_world [Classifier, Router, Policy, Contest, Ticket]
                  sample_state = (t, Inr state')"
    by blast
  with initialMessage_immutable
         [of sample_world Policy sample_state
             "[Classifier, Router, Policy, Contest, Ticket]"]
  have "state' ''initialMessage'' = sample_state ''initialMessage''"
    by blast
  with run show ?thesis by (simp add: sample_state_def)
qed

end
